theory Spec2Isabelle
  imports Main
begin

section \<open>Values, documents and the store\<close>

text \<open>
  The service keeps three kinds of MongoDB documents in one database
  (\<open>master_database\<close>): the registry of organizations, the admins, and the
  records of the per-organization collections, reached by computed name through
  \<open>master_db[collection_name]\<close>.  Time instants are integers (seconds, the
  resolution of the \<open>exp\<close> claim of a token); every operation receives the value of
  \<open>datetime.utcnow()\<close> as its argument \<open>now\<close>.  An \<open>ObjectId\<close> is a natural
  number; the driver draws fresh ones from the counter \<open>next_id\<close> of the store.
\<close>

type_synonym timestamp = int
type_synonym object_id = nat

datatype jvalue =
    JNull
  | JBool bool
  | JInt int
  | JStr string
  | JOid object_id  \<comment> \<open>\<open>str(inserted_id)\<close>, the rendering of an ObjectId, kept symbolic\<close>

record org_document =
  org_id :: object_id  \<comment> \<open>\<open>_id\<close>\<close>
  organization_name :: string
  collection_name :: string
  created_at :: timestamp
  updated_at :: timestamp
  status :: string

record admin_document =
  admin_id :: object_id  \<comment> \<open>\<open>_id\<close>\<close>
  email :: string
  password :: string
  organization_id :: object_id
  admin_organization_name :: string  \<comment> \<open>the admin's field \<open>organization_name\<close>\<close>
  role :: string
  admin_created_at :: timestamp

record document =
  doc_id :: object_id  \<comment> \<open>\<open>_id\<close>\<close>
  doc_fields :: "(string \<times> jvalue) list"

record db =
  organizations_collection :: "org_document list"
  admins_collection :: "admin_document list"
  master_db :: "string \<Rightarrow> document list option"  \<comment> \<open>the dynamic collections; \<open>None\<close>: no such collection\<close>
  next_id :: object_id

definition init_db :: db where
  "init_db = \<lparr>organizations_collection = [], admins_collection = [],
              master_db = (\<lambda>_. None), next_id = 0\<rparr>"

text \<open>
  What an endpoint raises.  \<open>HTTPException\<close> carries the status code and the detail
  message.  The other constructors are the exceptions that are not caught and reach
  the caller as an internal server error: subscripting \<open>None\<close>, a violated unique
  index, a bulk insert that meets an existing \<open>_id\<close>, and a store write that fails.
\<close>

datatype failure =
    HTTPException nat string
  | TypeError
  | DuplicateKeyError
  | BulkWriteError
  | StoreFailure

type_synonym response = "(string \<times> jvalue) list"

subsection \<open>Configuration\<close>

definition SECRET_KEY :: string where
  "SECRET_KEY = ''anylongstring''"

definition ACCESS_TOKEN_EXPIRE_MINUTES :: int where
  "ACCESS_TOKEN_EXPIRE_MINUTES = 30"

definition minutes :: "int \<Rightarrow> int" where
  \<comment> \<open>\<open>timedelta(minutes=m)\<close>, in seconds\<close>
  "minutes m = 60 * m"

subsection \<open>Store operations\<close>

text \<open>
  \<open>find_one\<close> returns the first matching document in natural order, or \<open>None\<close>.
  The two indexes that \<open>startup_event\<close> creates are unique: an insert or an update
  that would repeat an \<open>organization_name\<close> of the registry, or an \<open>email\<close> of the
  admins, raises \<open>DuplicateKeyError\<close> (here: \<open>None\<close>).
\<close>

definition find_one_org :: "db \<Rightarrow> string \<Rightarrow> org_document option" where
  "find_one_org s name = find (\<lambda>d. organization_name d = name) (organizations_collection s)"

definition find_one_admin :: "db \<Rightarrow> string \<Rightarrow> admin_document option" where
  "find_one_admin s em = find (\<lambda>d. email d = em) (admins_collection s)"

definition find_one_admin_by :: "db \<Rightarrow> jvalue \<Rightarrow> admin_document option" where
  \<comment> \<open>the filter value comes out of a token, so it is a JSON value\<close>
  "find_one_admin_by s v = find (\<lambda>d. JStr (email d) = v) (admins_collection s)"

definition insert_one_org :: "org_document \<Rightarrow> db \<Rightarrow> (object_id \<times> db) option" where
  "insert_one_org d s =
     (if organization_name d \<in> set (map organization_name (organizations_collection s)) then None
      else Some (next_id s,
        s\<lparr>organizations_collection := organizations_collection s @ [d\<lparr>org_id := next_id s\<rparr>],
          next_id := next_id s + 1\<rparr>))"

definition insert_one_admin :: "admin_document \<Rightarrow> db \<Rightarrow> db option" where
  "insert_one_admin d s =
     (if email d \<in> set (map email (admins_collection s)) then None
      else Some
        (s\<lparr>admins_collection := admins_collection s @ [d\<lparr>admin_id := next_id s\<rparr>],
           next_id := next_id s + 1\<rparr>))"

definition find_all :: "db \<Rightarrow> string \<Rightarrow> document list" where
  \<comment> \<open>\<open>master_db[c].find().to_list(length=None)\<close>: a collection that does not exist reads as empty\<close>
  "find_all s c = (case master_db s c of None \<Rightarrow> [] | Some ds \<Rightarrow> ds)"

definition insert_one_doc :: "string \<Rightarrow> (string \<times> jvalue) list \<Rightarrow> db \<Rightarrow> db" where
  \<comment> \<open>the first insert creates the collection\<close>
  "insert_one_doc c fs s =
     s\<lparr>master_db := (master_db s)(c \<mapsto> find_all s c @ [\<lparr>doc_id = next_id s, doc_fields = fs\<rparr>]),
       next_id := next_id s + 1\<rparr>"

fun insert_many :: "document list \<Rightarrow> document list \<Rightarrow> bool \<times> document list" where
  \<comment> \<open>ordered bulk insert of documents that carry their \<open>_id\<close>: stops at the first
      \<open>_id\<close> the collection already holds, keeping what went in before\<close>
  "insert_many [] coll = (True, coll)"
| "insert_many (d # ds) coll =
     (if doc_id d \<in> set (map doc_id coll) then (False, coll)
      else insert_many ds (coll @ [d]))"

fun update_first :: "('a \<Rightarrow> bool) \<Rightarrow> ('a \<Rightarrow> 'a) \<Rightarrow> 'a list \<Rightarrow> 'a list" where
  \<comment> \<open>\<open>update_one\<close>: the first match is updated, no match is no change\<close>
  "update_first P f [] = []"
| "update_first P f (x # xs) = (if P x then f x # xs else x # update_first P f xs)"

fun delete_first :: "('a \<Rightarrow> bool) \<Rightarrow> 'a list \<Rightarrow> 'a list" where
  \<comment> \<open>\<open>delete_one\<close>\<close>
  "delete_first P [] = []"
| "delete_first P (x # xs) = (if P x then xs else x # delete_first P xs)"

definition drop_collection :: "string \<Rightarrow> db \<Rightarrow> db" where
  \<comment> \<open>\<open>master_db[c].drop()\<close>; dropping a collection that does not exist changes nothing\<close>
  "drop_collection c s = s\<lparr>master_db := (master_db s)(c := None)\<rparr>"

section \<open>Helper functions\<close>

subsection \<open>Passwords\<close>

text \<open>
  \<open>hash_password\<close> and \<open>verify_password\<close> call the bcrypt context of passlib.  The
  context is a parameter of every operation that uses it; nothing is assumed of it.
\<close>

record pwd_context =
  hash_password :: "string \<Rightarrow> string"
  verify_password :: "string \<Rightarrow> string \<Rightarrow> bool"

subsection \<open>Tokens\<close>

text \<open>
  A bearer token is either a string that is no JWT, or a payload signed with some
  key.  \<open>jwt_decode\<close> models what \<open>jwt.decode\<close> of python-jose does on the claims
  this service issues: it rejects a token that is malformed or signed with another
  key, then a non-integer \<open>exp\<close>, then an \<open>exp\<close> that lies before the current time
  (\<open>ExpiredSignatureError\<close>, a subclass of \<open>JWTError\<close> that the handler catches
  first), then a \<open>sub\<close> that is not a string.  A payload without \<open>exp\<close> never expires.
\<close>

type_synonym claims = "string \<Rightarrow> jvalue option"

datatype token = Garbage string | JWS string claims

datatype jwt_error = ExpiredSignatureError | JWTError

definition jwt_encode :: "claims \<Rightarrow> string \<Rightarrow> token" where
  "jwt_encode payload key = JWS key payload"

definition validate_sub :: "claims \<Rightarrow> jwt_error + claims" where
  "validate_sub payload =
     (case payload ''sub'' of
        None \<Rightarrow> Inr payload
      | Some (JStr _) \<Rightarrow> Inr payload
      | Some _ \<Rightarrow> Inl JWTError)"

definition jwt_decode :: "token \<Rightarrow> string \<Rightarrow> timestamp \<Rightarrow> jwt_error + claims" where
  "jwt_decode tok key now =
     (case tok of
        Garbage _ \<Rightarrow> Inl JWTError
      | JWS k payload \<Rightarrow>
          if k \<noteq> key then Inl JWTError
          else (case payload ''exp'' of
                  None \<Rightarrow> validate_sub payload
                | Some (JInt e) \<Rightarrow> if e < now then Inl ExpiredSignatureError else validate_sub payload
                | Some _ \<Rightarrow> Inl JWTError))"

definition payload_get :: "claims \<Rightarrow> string \<Rightarrow> jvalue" where
  \<comment> \<open>\<open>payload.get(k)\<close>: \<open>None\<close> for a key that is absent\<close>
  "payload_get payload k = (case payload k of None \<Rightarrow> JNull | Some v \<Rightarrow> v)"

definition create_access_token :: "claims \<Rightarrow> int option \<Rightarrow> timestamp \<Rightarrow> token" where
  \<comment> \<open>\<open>if expires_delta:\<close> is false for \<open>None\<close> and for the zero duration\<close>
  "create_access_token data expires_delta now =
     (let to_encode = data;
          expire = (case expires_delta of
                      None \<Rightarrow> now + minutes 15
                    | Some d \<Rightarrow> if d \<noteq> 0 then now + d else now + minutes 15)
      in jwt_encode (to_encode(''exp'' \<mapsto> JInt expire)) SECRET_KEY)"

definition get_current_admin :: "token \<Rightarrow> timestamp \<Rightarrow> failure + (jvalue \<times> jvalue)" where
  \<comment> \<open>the result is the dictionary of \<open>email\<close> and \<open>org_id\<close>, as a pair\<close>
  "get_current_admin tok now =
     (case jwt_decode tok SECRET_KEY now of
        Inr payload \<Rightarrow>
          (let email = payload_get payload ''sub'';
               org_id = payload_get payload ''org_id''
           in if email = JNull \<or> org_id = JNull
              then Inl (HTTPException 401 ''Invalid authentication credentials'')
              else Inr (email, org_id))
      | Inl ExpiredSignatureError \<Rightarrow> Inl (HTTPException 401 ''Token has expired'')
      | Inl JWTError \<Rightarrow> Inl (HTTPException 401 ''Could not validate credentials''))"

subsection \<open>Collection names\<close>

text \<open>
  Organization names are byte strings here: \<open>str.lower\<close> maps the letters
  \<open>A\<close> to \<open>Z\<close> to lower case and leaves every other character alone, and
  \<open>str.replace\<close> is called with single characters.
\<close>

definition ascii_uppercase :: string where
  "ascii_uppercase = ''ABCDEFGHIJKLMNOPQRSTUVWXYZ''"

definition ascii_lowercase :: string where
  "ascii_lowercase = ''abcdefghijklmnopqrstuvwxyz''"

definition lower_char :: "char \<Rightarrow> char" where
  "lower_char c = (case map_of (zip ascii_uppercase ascii_lowercase) c of None \<Rightarrow> c | Some l \<Rightarrow> l)"

definition str_lower :: "string \<Rightarrow> string" where
  "str_lower s = map lower_char s"

definition str_replace :: "char \<Rightarrow> char \<Rightarrow> string \<Rightarrow> string" where
  "str_replace old new s = map (\<lambda>c. if c = old then new else c) s"

definition sanitize_collection_name :: "string \<Rightarrow> string" where
  "sanitize_collection_name name =
     ''org_'' @ str_replace CHR ''-'' CHR ''_'' (str_replace CHR '' '' CHR ''_'' (str_lower name))"

section \<open>API endpoints\<close>

text \<open>
  Each endpoint takes the store and the fields of its (already validated) request
  model and returns what it returns or raises, together with the store it leaves
  behind.  A raise keeps the writes made before it: nothing is rolled back.
\<close>

subsection \<open>Create\<close>

definition create_organization ::
  "pwd_context \<Rightarrow> db \<Rightarrow> string \<Rightarrow> string \<Rightarrow> string \<Rightarrow> timestamp \<Rightarrow> (failure + response) \<times> db" where
  "create_organization ctx s name em pw now =
     (case find_one_org s name of
        Some existing_org \<Rightarrow> (Inl (HTTPException 400 ''Organization name already exists''), s)
      | None \<Rightarrow>
     (case find_one_admin s em of
        Some existing_admin \<Rightarrow> (Inl (HTTPException 400 ''Admin email already exists''), s)
      | None \<Rightarrow>
     (let cname = sanitize_collection_name name;
          org_doc = \<lparr>org_id = 0, organization_name = name, collection_name = cname,
                     created_at = now, updated_at = now, status = ''active''\<rparr>
      in case insert_one_org org_doc s of
           None \<Rightarrow> (Inl DuplicateKeyError, s)
         | Some (oid, s1) \<Rightarrow>
      (let hashed_password = hash_password ctx pw;
           admin_doc = \<lparr>admin_id = 0, email = em, password = hashed_password,
                        organization_id = oid, admin_organization_name = name,
                        role = ''admin'', admin_created_at = now\<rparr>
       in case insert_one_admin admin_doc s1 of
            None \<Rightarrow> (Inl DuplicateKeyError, s1)
          | Some s2 \<Rightarrow>
              (Inr [(''message'', JStr ''Organization created successfully''),
                    (''organization_id'', JOid oid),
                    (''organization_name'', JStr name),
                    (''collection_name'', JStr cname),
                    (''admin_email'', JStr em)],
               insert_one_doc cname
                 [(''initialized'', JBool True), (''created_at'', JInt now),
                  (''type'', JStr ''initialization'')] s2)))))"

subsection \<open>Rename\<close>

text \<open>
  The four store writes of \<open>update_organization\<close>, in the order of the source.
  The argument \<open>fails\<close> says which of them raises (a lost connection, say); a write
  that raises leaves the store as it found it.
\<close>

datatype store_write = CopyDocuments | UpdateOrganization | UpdateAdmin | DropOldCollection

definition no_faults :: "store_write \<Rightarrow> bool" where
  "no_faults w = False"

definition copy_documents ::
  "(store_write \<Rightarrow> bool) \<Rightarrow> string \<Rightarrow> document list \<Rightarrow> db \<Rightarrow> failure option \<times> db" where
  \<comment> \<open>\<open>if documents: await new_collection.insert_many(documents)\<close>\<close>
  "copy_documents fails new_collection_name documents s =
     (if documents = [] then (None, s)
      else if fails CopyDocuments then (Some StoreFailure, s)
      else (case insert_many documents (find_all s new_collection_name) of
              (True, coll) \<Rightarrow> (None, s\<lparr>master_db := (master_db s)(new_collection_name \<mapsto> coll)\<rparr>)
            | (False, coll) \<Rightarrow>
                (Some BulkWriteError, s\<lparr>master_db := (master_db s)(new_collection_name \<mapsto> coll)\<rparr>)))"

definition update_one_org ::
  "(store_write \<Rightarrow> bool) \<Rightarrow> string \<Rightarrow> string \<Rightarrow> string \<Rightarrow> timestamp \<Rightarrow> db \<Rightarrow> failure option \<times> db" where
  "update_one_org fails name new_name new_collection_name now s =
     (let names = map organization_name (organizations_collection s)
      in if fails UpdateOrganization then (Some StoreFailure, s)
         else if new_name \<noteq> name \<and> name \<in> set names \<and> new_name \<in> set names
           then (Some DuplicateKeyError, s)
         else (None,
           s\<lparr>organizations_collection :=
               update_first (\<lambda>d. organization_name d = name)
                 (\<lambda>d. d\<lparr>organization_name := new_name,
                         collection_name := new_collection_name,
                         updated_at := now\<rparr>)
                 (organizations_collection s)\<rparr>))"

definition update_one_admin ::
  "(store_write \<Rightarrow> bool) \<Rightarrow> string \<Rightarrow> string \<Rightarrow> db \<Rightarrow> failure option \<times> db" where
  "update_one_admin fails em new_name s =
     (if fails UpdateAdmin then (Some StoreFailure, s)
      else (None,
        s\<lparr>admins_collection :=
            update_first (\<lambda>d. email d = em)
              (\<lambda>d. d\<lparr>admin_organization_name := new_name\<rparr>)
              (admins_collection s)\<rparr>))"

definition drop_old_collection ::
  "(store_write \<Rightarrow> bool) \<Rightarrow> string \<Rightarrow> db \<Rightarrow> failure option \<times> db" where
  "drop_old_collection fails old_collection_name s =
     (if fails DropOldCollection then (Some StoreFailure, s)
      else (None, drop_collection old_collection_name s))"

definition migrate ::
  "(store_write \<Rightarrow> bool) \<Rightarrow> db \<Rightarrow> org_document \<Rightarrow> string \<Rightarrow> string \<Rightarrow> string \<Rightarrow> timestamp
     \<Rightarrow> (failure + response) \<times> db" where
  \<comment> \<open>\<open>update_organization\<close> once its checks have passed\<close>
  "migrate fails s existing_org name new_name em now =
     (let old_collection_name = collection_name existing_org;
          new_collection_name = sanitize_collection_name new_name;
          documents = find_all s old_collection_name
      in case copy_documents fails new_collection_name documents s of
           (Some e, s1) \<Rightarrow> (Inl e, s1)
         | (None, s1) \<Rightarrow>
      (case update_one_org fails name new_name new_collection_name now s1 of
           (Some e, s2) \<Rightarrow> (Inl e, s2)
         | (None, s2) \<Rightarrow>
      (case update_one_admin fails em new_name s2 of
           (Some e, s3) \<Rightarrow> (Inl e, s3)
         | (None, s3) \<Rightarrow>
      (case drop_old_collection fails old_collection_name s3 of
           (Some e, s4) \<Rightarrow> (Inl e, s4)
         | (None, s4) \<Rightarrow>
             (Inr [(''message'', JStr ''Organization updated successfully''),
                   (''old_name'', JStr name),
                   (''new_name'', JStr new_name),
                   (''new_collection_name'', JStr new_collection_name)],
              s4)))))"

definition update_organization ::
  "pwd_context \<Rightarrow> (store_write \<Rightarrow> bool) \<Rightarrow> db \<Rightarrow> string \<Rightarrow> string \<Rightarrow> string \<Rightarrow> string \<Rightarrow> timestamp
     \<Rightarrow> (failure + response) \<times> db" where
  "update_organization ctx fails s name new_name em pw now =
     (case find_one_org s name of
        None \<Rightarrow> (Inl (HTTPException 404 ''Organization not found''), s)
      | Some existing_org \<Rightarrow>
     (case find_one_admin s em of
        None \<Rightarrow> (Inl (HTTPException 403 ''Unauthorized: Invalid admin credentials''), s)
      | Some admin \<Rightarrow>
          if admin_organization_name admin \<noteq> name
          then (Inl (HTTPException 403 ''Unauthorized: Invalid admin credentials''), s)
          else if \<not> verify_password ctx pw (password admin)
          then (Inl (HTTPException 403 ''Unauthorized: Invalid password''), s)
          else if new_name \<noteq> name \<and> find_one_org s new_name \<noteq> None
          then (Inl (HTTPException 400 ''New organization name already exists''), s)
          else migrate fails s existing_org name new_name em now))"

subsection \<open>Delete\<close>

text \<open>
  The dependency \<open>get_current_admin\<close> runs before the body of the endpoint, so a
  token failure comes before the lookup of the organization.
\<close>

definition delete_organization ::
  "db \<Rightarrow> string \<Rightarrow> token \<Rightarrow> timestamp \<Rightarrow> (failure + response) \<times> db" where
  "delete_organization s name tok now =
     (case get_current_admin tok now of
        Inl e \<Rightarrow> (Inl e, s)
      | Inr current_admin \<Rightarrow>
     (case find_one_org s name of
        None \<Rightarrow> (Inl (HTTPException 404 ''Organization not found''), s)
      | Some organization \<Rightarrow>
     (case find_one_admin_by s (fst current_admin) of
        None \<Rightarrow> (Inl TypeError, s)  \<comment> \<open>the subscript of \<open>admin\<close>, which is \<open>None\<close>\<close>
      | Some admin \<Rightarrow>
          if admin_organization_name admin \<noteq> name
          then (Inl (HTTPException 403 ''Unauthorized: You can only delete your own organization''), s)
          else
            (let s1 = drop_collection (collection_name organization) s;
                 s2 = s1\<lparr>organizations_collection :=
                         delete_first (\<lambda>d. organization_name d = name) (organizations_collection s1)\<rparr>;
                 s3 = s2\<lparr>admins_collection :=
                         filter (\<lambda>d. admin_organization_name d \<noteq> name) (admins_collection s2)\<rparr>
             in (Inr [(''message'', JStr ''Organization deleted successfully''),
                      (''organization_name'', JStr name)],
                 s3)))))"

subsection \<open>Login\<close>

definition admin_login ::
  "pwd_context \<Rightarrow> db \<Rightarrow> string \<Rightarrow> string \<Rightarrow> timestamp \<Rightarrow> failure + (token \<times> string)" where
  \<comment> \<open>the result is the \<open>Token\<close> model: \<open>access_token\<close> and \<open>token_type\<close>; the store is only read\<close>
  "admin_login ctx s em pw now =
     (case find_one_admin s em of
        None \<Rightarrow> Inl (HTTPException 401 ''Invalid email or password'')
      | Some admin \<Rightarrow>
          if \<not> verify_password ctx pw (password admin)
          then Inl (HTTPException 401 ''Invalid email or password'')
          else
            (let access_token_expires = minutes ACCESS_TOKEN_EXPIRE_MINUTES;
                 access_token =
                   create_access_token
                     [''sub'' \<mapsto> JStr (email admin),
                      ''org_id'' \<mapsto> JOid (organization_id admin),
                      ''org_name'' \<mapsto> JStr (admin_organization_name admin),
                      ''role'' \<mapsto> JStr (role admin)]
                     (Some access_token_expires) now
             in Inr (access_token, ''bearer'')))"

section \<open>Specification vocabulary and example data\<close>

subsection \<open>The vocabulary of the specification\<close>

text \<open>
  The constraints that the request models put on their fields (\<open>min_length\<close>,
  \<open>max_length\<close>).  The endpoints below take requests that have passed them.
\<close>

definition valid_organization_name :: "string \<Rightarrow> bool" where
  "valid_organization_name name \<longleftrightarrow> 3 \<le> length name \<and> length name \<le> 50"

definition valid_password :: "string \<Rightarrow> bool" where
  "valid_password pw \<longleftrightarrow> 8 \<le> length pw"


definition lookup :: "response \<Rightarrow> string \<Rightarrow> jvalue" where
  \<comment> \<open>a field of a response body\<close>
  "lookup r k = (case map_of r k of None \<Rightarrow> JNull | Some v \<Rightarrow> v)"



text \<open>
  An admin is in sync when the registry record with the \<open>_id\<close> that its
  \<open>organization_id\<close> names exists and carries the admin's \<open>organization_name\<close>.
\<close>

definition admins_in_sync :: "db \<Rightarrow> bool" where
  "admins_in_sync s =
     list_all (\<lambda>a. case find (\<lambda>d. org_id d = organization_id a) (organizations_collection s) of
                      None \<Rightarrow> False
                    | Some d \<Rightarrow> organization_name d = admin_organization_name a)
       (admins_collection s)"

text \<open>
  The invariant behind it: the two unique indexes hold, ids are unique and below the
  counter that draws them, no two admins belong to one organization, and every admin
  has its organization, under the same name.
\<close>

definition store_inv :: "db \<Rightarrow> bool" where
  "store_inv s \<longleftrightarrow>
     distinct (map organization_name (organizations_collection s))
     \<and> distinct (map org_id (organizations_collection s))
     \<and> distinct (map email (admins_collection s))
     \<and> distinct (map organization_id (admins_collection s))
     \<and> (\<forall>d\<in>set (organizations_collection s). org_id d < next_id s)
     \<and> (\<forall>a\<in>set (admins_collection s). \<exists>d\<in>set (organizations_collection s).
           org_id d = organization_id a \<and> organization_name d = admin_organization_name a)"

text \<open>
  The stores that the service reaches from the empty database by operations that run
  to their end, whatever they return or raise; the records of the partitions are
  written by other parties.
\<close>

inductive reachable :: "db \<Rightarrow> bool" where
  start: "reachable init_db"
| create: "reachable s \<Longrightarrow> reachable (snd (create_organization ctx s name em pw now))"
| rename: "reachable s \<Longrightarrow>
     reachable (snd (update_organization ctx no_faults s name new_name em pw now))"
| delete: "reachable s \<Longrightarrow> reachable (snd (delete_organization s name tok now))"
| records: "reachable s \<Longrightarrow> reachable (s\<lparr>master_db := m\<rparr>)"

subsection \<open>Store writes that fail\<close>

definition registry_fault :: "store_write \<Rightarrow> bool" where
  "registry_fault w = (w = UpdateOrganization)"

definition admin_fault :: "store_write \<Rightarrow> bool" where
  "admin_fault w = (w = UpdateAdmin)"

definition drop_fault :: "store_write \<Rightarrow> bool" where
  "drop_fault w = (w = DropOldCollection)"

subsection \<open>Example data\<close>

text \<open>A password context to run the endpoints with: the hash is the password behind a tag.\<close>

definition demo_ctx :: pwd_context where
  "demo_ctx = \<lparr>hash_password = (\<lambda>p. ''$2b$'' @ p), verify_password = (\<lambda>p h. h = ''$2b$'' @ p)\<rparr>"

text \<open>Acme Corp is created at time 1000, its admin logs in, and it is renamed at time 2000.\<close>

definition acme_db :: db where
  \<comment> \<open>the store after creating Acme Corp on an empty database\<close>
  "acme_db = snd (create_organization demo_ctx init_db ''Acme Corp'' ''a@x.com'' ''password123'' 1000)"

definition acme_org :: org_document where
  "acme_org = \<lparr>org_id = 0, organization_name = ''Acme Corp'', collection_name = ''org_acme_corp'',
          created_at = 1000, updated_at = 1000, status = ''active''\<rparr>"

definition acme_admin :: admin_document where
  "acme_admin = \<lparr>admin_id = 1, email = ''a@x.com'', password = ''$2b$password123'',
          organization_id = 0, admin_organization_name = ''Acme Corp'',
          role = ''admin'', admin_created_at = 1000\<rparr>"

definition acme_marker :: document where
  "acme_marker = \<lparr>doc_id = 2, doc_fields = [(''initialized'', JBool True), (''created_at'', JInt 1000),
            (''type'', JStr ''initialization'')]\<rparr>"

definition acme_claims :: claims where
  "acme_claims = [''sub'' \<mapsto> JStr ''a@x.com'', ''org_id'' \<mapsto> JOid 0,
      ''org_name'' \<mapsto> JStr ''Acme Corp'', ''role'' \<mapsto> JStr ''admin'', ''exp'' \<mapsto> JInt 2800]"

definition acme_token :: token where
  \<comment> \<open>what the admin of Acme Corp gets from a login at time 1000\<close>
  "acme_token = JWS SECRET_KEY acme_claims"

definition acme_inc_db :: db where
  \<comment> \<open>the store after renaming Acme Corp to Acme Inc\<close>
  "acme_inc_db = snd (update_organization demo_ctx no_faults acme_db
     ''Acme Corp'' ''Acme Inc'' ''a@x.com'' ''password123'' 2000)"

text \<open>The same rename with a write that fails.\<close>

definition acme_registry_fault_db :: db where
  "acme_registry_fault_db = snd (update_organization demo_ctx registry_fault acme_db
          ''Acme Corp'' ''Acme Inc'' ''a@x.com'' ''password123'' 2000)"

definition acme_drop_fault_db :: db where
  "acme_drop_fault_db = snd (update_organization demo_ctx drop_fault acme_db
          ''Acme Corp'' ''Acme Inc'' ''a@x.com'' ''password123'' 2000)"

text \<open>
  A second organization beside Acme Corp: one whose name derives the same partition
  name, or Beta.  Then Acme Corp is deleted by its admin, whose token stays valid.
\<close>

definition acme_twin_db :: db where
  "acme_twin_db = snd (create_organization demo_ctx acme_db ''acme-corp'' ''b@x.com'' ''password456'' 1001)"

definition beta_db :: db where
  "beta_db = snd (create_organization demo_ctx acme_db ''Beta'' ''b@x.com'' ''password456'' 1100)"

definition beta_org :: org_document where
  "beta_org = \<lparr>org_id = 3, organization_name = ''Beta'', collection_name = ''org_beta'',
          created_at = 1100, updated_at = 1100, status = ''active''\<rparr>"

definition beta_admin :: admin_document where
  "beta_admin = \<lparr>admin_id = 4, email = ''b@x.com'', password = ''$2b$password456'',
          organization_id = 3, admin_organization_name = ''Beta'',
          role = ''admin'', admin_created_at = 1100\<rparr>"

definition beta_marker :: document where
  "beta_marker = \<lparr>doc_id = 5, doc_fields = [(''initialized'', JBool True), (''created_at'', JInt 1100),
            (''type'', JStr ''initialization'')]\<rparr>"

definition beta_only_db :: db where
  "beta_only_db = snd (delete_organization beta_db ''Acme Corp'' acme_token 1200)"


section \<open>Properties\<close>

subsection \<open>Lists and store operations\<close>

lemma find_update_first:
  "find P xs = Some x \<Longrightarrow> Q (f x) \<Longrightarrow> (\<forall>y\<in>set xs. Q y \<longrightarrow> P y) \<Longrightarrow>
     find Q (update_first P f xs) = Some (f x)"
  by (induction xs) (auto split: if_splits)

lemma find_None_append: "find P xs = None \<Longrightarrow> find P (xs @ ys) = find P ys"
  by (induction xs) (auto split: if_splits)

lemma find_Some_holds: "find P xs = Some x \<Longrightarrow> P x \<and> x \<in> set xs"
  by (induction xs) (auto split: if_splits)

lemma find_distinct_key:
  "distinct (map k xs) \<Longrightarrow> x \<in> set xs \<Longrightarrow> find (\<lambda>y. k y = k x) xs = Some x"
  by (induction xs) (auto simp: image_iff)

lemma find_one_org_None:
  "find_one_org s name = None \<Longrightarrow> name \<notin> set (map organization_name (organizations_collection s))"
  by (auto simp: find_one_org_def find_None_iff)

lemma find_one_admin_None:
  "find_one_admin s em = None \<Longrightarrow> em \<notin> set (map email (admins_collection s))"
  by (auto simp: find_one_admin_def find_None_iff)

lemma find_one_admin_by_JStr: "find_one_admin_by s (JStr e) = find_one_admin s e"
  by (simp add: find_one_admin_by_def find_one_admin_def)

lemma insert_many_True: "insert_many ds coll = (True, c) \<Longrightarrow> c = coll @ ds"
  by (induction ds arbitrary: coll) (fastforce split: if_splits)+

lemma insert_many_ok_iff:
  "fst (insert_many ds coll) \<longleftrightarrow>
     distinct (map doc_id ds) \<and> set (map doc_id ds) \<inter> set (map doc_id coll) = {}"
  by (induction ds arbitrary: coll) auto

lemma insert_many_self: "ds \<noteq> [] \<Longrightarrow> \<not> fst (insert_many ds ds)"
  by (cases ds) (auto simp: insert_many_ok_iff)

text \<open>
  Under the unique indexes the first match of an update or a delete is the only one.
\<close>

lemma update_first_distinct:
  "distinct (map k xs) \<Longrightarrow>
     update_first (\<lambda>x. k x = v) f xs = map (\<lambda>x. if k x = v then f x else x) xs"
proof (induction xs)
  case Nil
  then show ?case by simp
next
  case (Cons x xs)
  show ?case
  proof (cases "k x = v")
    case True
    with Cons.prems have "\<forall>y\<in>set xs. k y \<noteq> v" by (auto simp: image_iff)
    then have "map (\<lambda>x. if k x = v then f x else x) xs = xs"
      by (induction xs) auto
    with True show ?thesis by simp
  next
    case False
    with Cons show ?thesis by simp
  qed
qed

lemma delete_first_distinct:
  "distinct (map k xs) \<Longrightarrow> delete_first (\<lambda>x. k x = v) xs = filter (\<lambda>x. k x \<noteq> v) xs"
proof (induction xs)
  case Nil
  then show ?case by simp
next
  case (Cons x xs)
  show ?case
  proof (cases "k x = v")
    case True
    with Cons.prems have "\<forall>y\<in>set xs. k y \<noteq> v" by (auto simp: image_iff)
    then have "filter (\<lambda>x. k x \<noteq> v) xs = xs"
      by (induction xs) auto
    with True show ?thesis by simp
  next
    case False
    with Cons show ?thesis by simp
  qed
qed

lemma distinct_rename_key:
  assumes "distinct xs" "new = old \<or> new \<notin> set xs"
  shows "distinct (map (\<lambda>x. if x = old then new else x) xs)"
proof -
  have "inj_on (\<lambda>x. if x = old then new else x) (set xs)"
    using assms(2) by (auto simp: inj_on_def split: if_splits)
  with assms(1) show ?thesis by (simp add: distinct_map)
qed

lemma distinct_map_eq: "distinct (map k xs) \<Longrightarrow> x \<in> set xs \<Longrightarrow> y \<in> set xs \<Longrightarrow> k x = k y \<Longrightarrow> x = y"
  by (auto simp: distinct_map inj_on_def)

subsection \<open>What the endpoints leave behind\<close>

lemma create_organization_Inr:
  assumes "create_organization ctx s name em pw now = (Inr r, s')"
  shows "find_one_org s name = None \<and> find_one_admin s em = None
    \<and> organizations_collection s' = organizations_collection s @
         [\<lparr>org_id = next_id s, organization_name = name,
           collection_name = sanitize_collection_name name,
           created_at = now, updated_at = now, status = ''active''\<rparr>]
    \<and> admins_collection s' = admins_collection s @
         [\<lparr>admin_id = next_id s + 1, email = em, password = hash_password ctx pw,
           organization_id = next_id s, admin_organization_name = name,
           role = ''admin'', admin_created_at = now\<rparr>]
    \<and> master_db s' = (master_db s)(sanitize_collection_name name \<mapsto>
          find_all s (sanitize_collection_name name) @
            [\<lparr>doc_id = next_id s + 2,
              doc_fields = [(''initialized'', JBool True), (''created_at'', JInt now),
                  (''type'', JStr ''initialization'')]\<rparr>])
    \<and> next_id s' = next_id s + 3
    \<and> r = [(''message'', JStr ''Organization created successfully''),
            (''organization_id'', JOid (next_id s)),
            (''organization_name'', JStr name),
            (''collection_name'', JStr (sanitize_collection_name name)),
            (''admin_email'', JStr em)]"
  using assms
  by (auto simp: create_organization_def Let_def insert_one_org_def insert_one_admin_def
      insert_one_doc_def find_all_def
      split: option.splits if_splits)

lemma create_organization_succeeds:
  assumes "find_one_org s name = None" "find_one_admin s em = None"
  shows "\<exists>r s'. create_organization ctx s name em pw now = (Inr r, s')"
  using find_one_org_None[OF assms(1)] find_one_admin_None[OF assms(2)] assms
  by (simp add: create_organization_def Let_def insert_one_org_def insert_one_admin_def)

lemma create_organization_failed:
  "create_organization ctx s name em pw now = (Inl e, s') \<Longrightarrow> s' = s"
  by (auto simp: create_organization_def Let_def insert_one_org_def insert_one_admin_def
      dest: find_one_org_None find_one_admin_None
      split: option.splits if_splits)

lemma update_organization_Inr:
  assumes "update_organization ctx fails s name new_name em pw now = (Inr r, s')"
  shows "\<exists>org admin. find_one_org s name = Some org \<and> find_one_admin s em = Some admin
     \<and> admin_organization_name admin = name \<and> verify_password ctx pw (password admin)
     \<and> (new_name = name \<or> find_one_org s new_name = None)
     \<and> migrate fails s org name new_name em now = (Inr r, s')"
  using assms
  by (auto simp: update_organization_def split: option.splits if_splits)

lemma update_organization_cases:
  assumes "update_organization ctx fails s name new_name em pw now = (res, s')"
  shows "(\<exists>code msg. res = Inl (HTTPException code msg) \<and> s' = s)
     \<or> (\<exists>org admin. find_one_org s name = Some org \<and> find_one_admin s em = Some admin
          \<and> admin_organization_name admin = name \<and> verify_password ctx pw (password admin)
          \<and> (new_name = name \<or> find_one_org s new_name = None)
          \<and> migrate fails s org name new_name em now = (res, s'))"
  using assms
  by (auto simp: update_organization_def split: option.splits if_splits)

lemma migrate_Inr:
  assumes "migrate fails s org name new_name em now = (Inr r, s')"
  shows "organizations_collection s' =
           update_first (\<lambda>d. organization_name d = name)
             (\<lambda>d. d\<lparr>organization_name := new_name,
                     collection_name := sanitize_collection_name new_name,
                     updated_at := now\<rparr>) (organizations_collection s)"
    and "admins_collection s' =
           update_first (\<lambda>d. email d = em) (\<lambda>d. d\<lparr>admin_organization_name := new_name\<rparr>)
             (admins_collection s)"
    and "master_db s' =
           (if find_all s (collection_name org) = [] then master_db s
            else (master_db s)(sanitize_collection_name new_name \<mapsto>
                   find_all s (sanitize_collection_name new_name) @ find_all s (collection_name org)))
           (collection_name org := None)"
    and "next_id s' = next_id s"
    and "r = [(''message'', JStr ''Organization updated successfully''),
              (''old_name'', JStr name),
              (''new_name'', JStr new_name),
              (''new_collection_name'', JStr (sanitize_collection_name new_name))]"
  using assms
  by (auto simp: migrate_def Let_def copy_documents_def update_one_org_def update_one_admin_def
      drop_old_collection_def drop_collection_def
      split: prod.splits option.splits if_splits bool.splits dest: insert_many_True)

lemma migrate_Inr_copied:
  assumes "migrate fails s org name new_name em now = (Inr r, s')"
  shows "find_all s (collection_name org) = [] \<or>
     fst (insert_many (find_all s (collection_name org)) (find_all s (sanitize_collection_name new_name)))"
  using assms
  by (auto simp: migrate_def Let_def copy_documents_def 
      split: prod.splits option.splits if_splits bool.splits)

lemma migrate_failed:
  assumes "migrate fails s org name new_name em now = (Inl e, s')"
    "\<not> fails UpdateAdmin" "\<not> fails DropOldCollection"
  shows "organizations_collection s' = organizations_collection s
    \<and> admins_collection s' = admins_collection s \<and> next_id s' = next_id s"
  using assms
  by (auto simp: migrate_def Let_def copy_documents_def update_one_org_def update_one_admin_def
      drop_old_collection_def
      split: prod.splits option.splits if_splits bool.splits)

lemma migrate_registry_fault:
  assumes "fails UpdateOrganization" "\<not> fails CopyDocuments"
    and "migrate fails s org name new_name em now = (Inl StoreFailure, s')"
  shows "organizations_collection s' = organizations_collection s"
    and "admins_collection s' = admins_collection s"
    and "next_id s' = next_id s"
    and "master_db s' =
           (if find_all s (collection_name org) = [] then master_db s
            else (master_db s)(sanitize_collection_name new_name \<mapsto>
                   find_all s (sanitize_collection_name new_name) @ find_all s (collection_name org)))"
  using assms
  by (auto simp: migrate_def Let_def copy_documents_def update_one_org_def
      split: prod.splits option.splits if_splits bool.splits dest: insert_many_True)

lemma migrate_drop_fault:
  assumes "fails DropOldCollection" "\<not> fails CopyDocuments" "\<not> fails UpdateOrganization"
    "\<not> fails UpdateAdmin"
    and "migrate fails s org name new_name em now = (Inl StoreFailure, s')"
  shows "organizations_collection s' =
           update_first (\<lambda>d. organization_name d = name)
             (\<lambda>d. d\<lparr>organization_name := new_name,
                     collection_name := sanitize_collection_name new_name,
                     updated_at := now\<rparr>) (organizations_collection s)"
    and "admins_collection s' =
           update_first (\<lambda>d. email d = em) (\<lambda>d. d\<lparr>admin_organization_name := new_name\<rparr>)
             (admins_collection s)"
    and "master_db s' =
           (if find_all s (collection_name org) = [] then master_db s
            else (master_db s)(sanitize_collection_name new_name \<mapsto>
                   find_all s (sanitize_collection_name new_name) @ find_all s (collection_name org)))"
  using assms
  by (auto simp: migrate_def Let_def copy_documents_def update_one_org_def update_one_admin_def
      drop_old_collection_def
      split: prod.splits option.splits if_splits bool.splits dest: insert_many_True)



subsection \<open>Example runs\<close>

lemmas endpoint_defs =
  create_organization_def update_organization_def delete_organization_def admin_login_def
  migrate_def copy_documents_def update_one_org_def update_one_admin_def drop_old_collection_def
  drop_collection_def no_faults_def
  find_one_org_def find_one_admin_def find_one_admin_by_def insert_one_org_def insert_one_admin_def
  insert_one_doc_def find_all_def
  get_current_admin_def jwt_decode_def jwt_encode_def validate_sub_def payload_get_def
  create_access_token_def SECRET_KEY_def ACCESS_TOKEN_EXPIRE_MINUTES_def minutes_def
  sanitize_collection_name_def str_replace_def str_lower_def lower_char_def
  ascii_uppercase_def ascii_lowercase_def
  demo_ctx_def init_db_def lookup_def

lemma acme_db_eq:
  "acme_db =
     \<lparr>organizations_collection =
        [\<lparr>org_id = 0, organization_name = ''Acme Corp'', collection_name = ''org_acme_corp'',
          created_at = 1000, updated_at = 1000, status = ''active''\<rparr>],
      admins_collection =
        [\<lparr>admin_id = 1, email = ''a@x.com'', password = ''$2b$password123'',
          organization_id = 0, admin_organization_name = ''Acme Corp'',
          role = ''admin'', admin_created_at = 1000\<rparr>],
      master_db = (\<lambda>_. None)(''org_acme_corp'' \<mapsto>
        [\<lparr>doc_id = 2, doc_fields = [(''initialized'', JBool True), (''created_at'', JInt 1000),
            (''type'', JStr ''initialization'')]\<rparr>]),
      next_id = 3\<rparr>"
  by (simp add: acme_db_def endpoint_defs Let_def numeral_2_eq_2)

lemma acme_db_simps:
  "organizations_collection acme_db = [acme_org]"
  "admins_collection acme_db = [acme_admin]"
  "master_db acme_db c = (if c = ''org_acme_corp'' then Some [acme_marker] else None)"
  "find_all acme_db c = (if c = ''org_acme_corp'' then [acme_marker] else [])"
  "next_id acme_db = 3"
  "find_one_org acme_db n = (if n = ''Acme Corp'' then Some acme_org else None)"
  "find_one_admin acme_db e = (if e = ''a@x.com'' then Some acme_admin else None)"
  by (auto simp: acme_db_eq acme_org_def acme_admin_def acme_marker_def find_all_def
      find_one_org_def find_one_admin_def)

lemma sanitize_examples:
  "sanitize_collection_name ''Acme Corp'' = ''org_acme_corp''"
  "sanitize_collection_name ''Acme Inc'' = ''org_acme_inc''"
  "sanitize_collection_name ''acme-corp'' = ''org_acme_corp''"
  "sanitize_collection_name ''acme corp'' = ''org_acme_corp''"
  "sanitize_collection_name ''Beta'' = ''org_beta''"
  by (simp_all add: sanitize_collection_name_def str_replace_def str_lower_def lower_char_def
      ascii_uppercase_def ascii_lowercase_def)

lemma init_db_finds: "find_one_org init_db n = None" "find_one_admin init_db e = None"
  "find_all init_db c = []"
  by (simp_all add: init_db_def find_one_org_def find_one_admin_def find_all_def)

lemma acme_create_run:
  "create_organization demo_ctx init_db ''Acme Corp'' ''a@x.com'' ''password123'' 1000 =
     (Inr [(''message'', JStr ''Organization created successfully''),
           (''organization_id'', JOid 0),
           (''organization_name'', JStr ''Acme Corp''),
           (''collection_name'', JStr ''org_acme_corp''),
           (''admin_email'', JStr ''a@x.com'')], acme_db)"
  by (simp add: acme_db_def) (simp add: endpoint_defs Let_def)

lemma acme_rename_run:
  "update_organization demo_ctx no_faults acme_db ''Acme Corp'' ''Acme Inc'' ''a@x.com'' ''password123'' 2000 =
     (Inr [(''message'', JStr ''Organization updated successfully''),
           (''old_name'', JStr ''Acme Corp''),
           (''new_name'', JStr ''Acme Inc''),
           (''new_collection_name'', JStr ''org_acme_inc'')], acme_inc_db)"
  by (simp add: acme_inc_db_def) (simp add: acme_db_eq endpoint_defs Let_def)

lemma acme_inc_db_simps:
  "organizations_collection acme_inc_db =
     [acme_org\<lparr>organization_name := ''Acme Inc'', collection_name := ''org_acme_inc'',
                updated_at := 2000\<rparr>]"
  "admins_collection acme_inc_db = [acme_admin\<lparr>admin_organization_name := ''Acme Inc''\<rparr>]"
  "find_all acme_inc_db c = (if c = ''org_acme_inc'' then [acme_marker] else [])"
  by (simp_all add: acme_inc_db_def update_organization_def migrate_def copy_documents_def
      update_one_org_def update_one_admin_def drop_old_collection_def drop_collection_def
      no_faults_def acme_db_simps sanitize_examples demo_ctx_def Let_def
      acme_admin_def acme_marker_def acme_org_def find_all_def)

lemma acme_claims_simps:
  "acme_claims ''exp'' = Some (JInt 2800)"
  "acme_claims ''sub'' = Some (JStr ''a@x.com'')"
  "acme_claims ''org_id'' = Some (JOid 0)"
  "acme_claims ''org_name'' = Some (JStr ''Acme Corp'')"
  "acme_claims ''role'' = Some (JStr ''admin'')"
  by (simp_all add: acme_claims_def)


lemma acme_token_valid:
  "now \<le> 2800 \<Longrightarrow> get_current_admin acme_token now = Inr (JStr ''a@x.com'', JOid 0)"
  by (simp add: get_current_admin_def jwt_decode_def acme_token_def acme_claims_simps
      validate_sub_def payload_get_def)

lemma acme_fault_runs:
  "update_organization demo_ctx registry_fault acme_db
          ''Acme Corp'' ''Acme Inc'' ''a@x.com'' ''password123'' 2000 = (Inl StoreFailure, acme_registry_fault_db)"
  "update_organization demo_ctx drop_fault acme_db
          ''Acme Corp'' ''Acme Inc'' ''a@x.com'' ''password123'' 2000 = (Inl StoreFailure, acme_drop_fault_db)"
  unfolding acme_registry_fault_db_def acme_drop_fault_db_def
  by (simp_all add: update_organization_def migrate_def copy_documents_def update_one_org_def
      update_one_admin_def drop_old_collection_def
      registry_fault_def drop_fault_def acme_db_simps sanitize_examples demo_ctx_def Let_def
      acme_admin_def acme_marker_def acme_org_def)

lemma beta_db_simps:
  "organizations_collection beta_db = [acme_org, beta_org]"
  "admins_collection beta_db = [acme_admin, beta_admin]"
  "master_db beta_db c = (if c = ''org_beta'' then Some [beta_marker]
      else if c = ''org_acme_corp'' then Some [acme_marker] else None)"
  "find_all beta_db c = (if c = ''org_beta'' then [beta_marker]
      else if c = ''org_acme_corp'' then [acme_marker] else [])"
  "next_id beta_db = 6"
  "find_one_org beta_db n = (if n = ''Acme Corp'' then Some acme_org
      else if n = ''Beta'' then Some beta_org else None)"
  "find_one_admin beta_db e = (if e = ''a@x.com'' then Some acme_admin
      else if e = ''b@x.com'' then Some beta_admin else None)"
  by (auto simp: beta_db_def create_organization_def acme_db_simps sanitize_examples insert_one_org_def
      insert_one_admin_def insert_one_doc_def Let_def acme_org_def acme_admin_def
      beta_org_def beta_admin_def beta_marker_def acme_marker_def
      find_all_def find_one_org_def find_one_admin_def demo_ctx_def)

lemma beta_only_db_simps:
  "delete_organization beta_db ''Acme Corp'' acme_token 1200 =
     (Inr [(''message'', JStr ''Organization deleted successfully''),
           (''organization_name'', JStr ''Acme Corp'')], beta_only_db)"
  "organizations_collection beta_only_db = [beta_org]"
  "admins_collection beta_only_db = [beta_admin]"
  "find_all beta_only_db c = (if c = ''org_beta'' then [beta_marker] else [])"
  "find_one_org beta_only_db n = (if n = ''Beta'' then Some beta_org else None)"
  "find_one_admin beta_only_db e = (if e = ''b@x.com'' then Some beta_admin else None)"
  by (auto simp: beta_only_db_def delete_organization_def acme_token_valid find_one_admin_by_JStr
      beta_db_simps drop_collection_def acme_admin_def acme_org_def beta_admin_def beta_org_def
      find_one_org_def find_one_admin_def find_all_def Let_def)

subsection \<open>The order of the writes of a Rename\<close>

text \<open>
  Claim C1, as stated: the old partition is dropped before the registry record is
  updated, so that a failing registry update leaves the old partition dropped.  In
  the source the drop is the last write.  Renaming Acme Corp with a registry update
  that fails leaves the old partition \<open>org_acme_corp\<close> in place with its record, the
  new partition holding the copy, and the registry entry as it was.
\<close>

theorem rename_write_order_counterexample:
  "fst (update_organization demo_ctx registry_fault acme_db
          ''Acme Corp'' ''Acme Inc'' ''a@x.com'' ''password123'' 2000) = Inl StoreFailure
   \<and> master_db (snd (update_organization demo_ctx registry_fault acme_db
          ''Acme Corp'' ''Acme Inc'' ''a@x.com'' ''password123'' 2000)) ''org_acme_corp'' = Some [acme_marker]
   \<and> master_db (snd (update_organization demo_ctx registry_fault acme_db
          ''Acme Corp'' ''Acme Inc'' ''a@x.com'' ''password123'' 2000)) ''org_acme_corp'' \<noteq> None
   \<and> master_db (snd (update_organization demo_ctx registry_fault acme_db
          ''Acme Corp'' ''Acme Inc'' ''a@x.com'' ''password123'' 2000)) ''org_acme_inc'' = Some [acme_marker]
   \<and> find_one_org (snd (update_organization demo_ctx registry_fault acme_db
          ''Acme Corp'' ''Acme Inc'' ''a@x.com'' ''password123'' 2000)) ''Acme Corp'' = Some acme_org"
  by (simp add: update_organization_def migrate_def copy_documents_def update_one_org_def
      registry_fault_def acme_db_simps sanitize_examples demo_ctx_def Let_def)
    (simp add: acme_admin_def acme_marker_def acme_org_def find_one_org_def acme_db_simps)

text \<open>
  Claim C1, amended.  For every Rename, the copy of all records into the new
  partition completes before the registry record is updated, and the old partition
  is dropped only after the registry record and the admin record have been updated.
  So when the registry update fails after the copy, the registry and the admins are
  unchanged, the old registry entry still points to the old partition name, the new
  partition holds its previous contents followed by the copy, no partition has been
  dropped and the old partition still holds all its records.  When the drop fails,
  the registry entry and the admin already carry the new name and the old partition
  is still there.
\<close>

theorem rename_write_order:
  "(fails UpdateOrganization \<and> \<not> fails CopyDocuments
      \<and> update_organization ctx fails s name new_name em pw now = (Inl StoreFailure, s') \<longrightarrow>
      (\<exists>org. find_one_org s name = Some org \<and> find_one_org s' name = Some org
         \<and> organizations_collection s' = organizations_collection s
         \<and> admins_collection s' = admins_collection s
         \<and> find_all s' (sanitize_collection_name new_name) =
             find_all s (sanitize_collection_name new_name) @ find_all s (collection_name org)
         \<and> (\<forall>c. c \<noteq> sanitize_collection_name new_name \<longrightarrow> master_db s' c = master_db s c)
         \<and> (master_db s (collection_name org) \<noteq> None \<longrightarrow> master_db s' (collection_name org) \<noteq> None)
         \<and> set (find_all s (collection_name org)) \<subseteq> set (find_all s' (collection_name org))))
   \<and> (fails DropOldCollection \<and> \<not> fails CopyDocuments \<and> \<not> fails UpdateOrganization
      \<and> \<not> fails UpdateAdmin
      \<and> update_organization ctx fails s name new_name em pw now = (Inl StoreFailure, s') \<longrightarrow>
      (\<exists>org. find_one_org s name = Some org
         \<and> find_one_org s' new_name = Some (org\<lparr>organization_name := new_name,
               collection_name := sanitize_collection_name new_name, updated_at := now\<rparr>)
         \<and> (\<exists>admin. find_one_admin s em = Some admin
               \<and> find_one_admin s' em = Some (admin\<lparr>admin_organization_name := new_name\<rparr>))
         \<and> (master_db s (collection_name org) \<noteq> None \<longrightarrow> master_db s' (collection_name org) \<noteq> None)
         \<and> set (find_all s (collection_name org)) \<subseteq> set (find_all s' (collection_name org))))"
proof (intro conjI impI)
  assume a: "fails UpdateOrganization \<and> \<not> fails CopyDocuments
      \<and> update_organization ctx fails s name new_name em pw now = (Inl StoreFailure, s')"
  with update_organization_cases[of ctx fails s name new_name em pw now "Inl StoreFailure" s']
  obtain org where org: "find_one_org s name = Some org"
    and m: "migrate fails s org name new_name em now = (Inl StoreFailure, s')"
    by auto
  note r = migrate_registry_fault[OF _ _ m]
  from a have f: "fails UpdateOrganization" "\<not> fails CopyDocuments" by simp_all
  have "find_one_org s' name = Some org"
    using org r(1)[OF f] by (simp add: find_one_org_def)
  moreover have "find_all s' (sanitize_collection_name new_name) =
             find_all s (sanitize_collection_name new_name) @ find_all s (collection_name org)"
    using r(4)[OF f] by (simp add: find_all_def)
  moreover have "\<forall>c. c \<noteq> sanitize_collection_name new_name \<longrightarrow> master_db s' c = master_db s c"
    using r(4)[OF f] by simp
  moreover have "master_db s (collection_name org) \<noteq> None \<longrightarrow> master_db s' (collection_name org) \<noteq> None"
    using r(4)[OF f] by simp
  moreover have "set (find_all s (collection_name org)) \<subseteq> set (find_all s' (collection_name org))"
    using r(4)[OF f] by (auto simp: find_all_def)
  ultimately show "\<exists>org. find_one_org s name = Some org \<and> find_one_org s' name = Some org
         \<and> organizations_collection s' = organizations_collection s
         \<and> admins_collection s' = admins_collection s
         \<and> find_all s' (sanitize_collection_name new_name) =
             find_all s (sanitize_collection_name new_name) @ find_all s (collection_name org)
         \<and> (\<forall>c. c \<noteq> sanitize_collection_name new_name \<longrightarrow> master_db s' c = master_db s c)
         \<and> (master_db s (collection_name org) \<noteq> None \<longrightarrow> master_db s' (collection_name org) \<noteq> None)
         \<and> set (find_all s (collection_name org)) \<subseteq> set (find_all s' (collection_name org))"
    using org r(1,2)[OF f] by blast
next
  assume a: "fails DropOldCollection \<and> \<not> fails CopyDocuments \<and> \<not> fails UpdateOrganization
      \<and> \<not> fails UpdateAdmin
      \<and> update_organization ctx fails s name new_name em pw now = (Inl StoreFailure, s')"
  with update_organization_cases[of ctx fails s name new_name em pw now "Inl StoreFailure" s']
  obtain org admin where org: "find_one_org s name = Some org"
    and admin: "find_one_admin s em = Some admin"
    and new: "new_name = name \<or> find_one_org s new_name = None"
    and m: "migrate fails s org name new_name em now = (Inl StoreFailure, s')"
    by auto
  from a have f: "fails DropOldCollection" "\<not> fails CopyDocuments" "\<not> fails UpdateOrganization"
    "\<not> fails UpdateAdmin" by simp_all
  note r = migrate_drop_fault[OF f m]
  let ?f = "\<lambda>d. d\<lparr>organization_name := new_name,
                     collection_name := sanitize_collection_name new_name, updated_at := now\<rparr>"
  have "\<forall>y\<in>set (organizations_collection s). organization_name y = new_name \<longrightarrow> organization_name y = name"
    using new by (auto simp: find_one_org_def find_None_iff)
  with org have "find (\<lambda>d. organization_name d = new_name)
        (update_first (\<lambda>d. organization_name d = name) ?f (organizations_collection s)) = Some (?f org)"
    unfolding find_one_org_def by (intro find_update_first) simp_all
  then have 1: "find_one_org s' new_name = Some (?f org)"
    by (simp add: find_one_org_def r(1))
  have "find (\<lambda>d. email d = em)
        (update_first (\<lambda>d. email d = em) (\<lambda>d. d\<lparr>admin_organization_name := new_name\<rparr>) (admins_collection s))
        = Some (admin\<lparr>admin_organization_name := new_name\<rparr>)"
    using admin unfolding find_one_admin_def
    by (intro find_update_first) (auto dest: find_Some_holds)
  then have 2: "find_one_admin s' em = Some (admin\<lparr>admin_organization_name := new_name\<rparr>)"
    by (simp add: find_one_admin_def r(2))
  have 3: "master_db s (collection_name org) \<noteq> None \<longrightarrow> master_db s' (collection_name org) \<noteq> None"
    using r(3) by simp
  have 4: "set (find_all s (collection_name org)) \<subseteq> set (find_all s' (collection_name org))"
    using r(3) by (auto simp: find_all_def)
  from org admin 1 2 3 4
  show "\<exists>org. find_one_org s name = Some org
         \<and> find_one_org s' new_name = Some (org\<lparr>organization_name := new_name,
               collection_name := sanitize_collection_name new_name, updated_at := now\<rparr>)
         \<and> (\<exists>admin. find_one_admin s em = Some admin
               \<and> find_one_admin s' em = Some (admin\<lparr>admin_organization_name := new_name\<rparr>))
         \<and> (master_db s (collection_name org) \<noteq> None \<longrightarrow> master_db s' (collection_name org) \<noteq> None)
         \<and> set (find_all s (collection_name org)) \<subseteq> set (find_all s' (collection_name org))"
    by blast
qed

theorem rename_write_order_witness:
  "find_one_org acme_registry_fault_db ''Acme Corp'' = Some acme_org
   \<and> collection_name acme_org = ''org_acme_corp''
   \<and> master_db acme_registry_fault_db ''org_acme_corp'' \<noteq> None
   \<and> find_all acme_registry_fault_db ''org_acme_inc'' = [acme_marker]
   \<and> find_one_org acme_drop_fault_db ''Acme Inc'' =
        Some (acme_org\<lparr>organization_name := ''Acme Inc'', collection_name := ''org_acme_inc'',
                updated_at := 2000\<rparr>)
   \<and> find_one_admin acme_drop_fault_db ''a@x.com'' =
        Some (acme_admin\<lparr>admin_organization_name := ''Acme Inc''\<rparr>)
   \<and> master_db acme_drop_fault_db ''org_acme_corp'' \<noteq> None"
proof -
  have f: "registry_fault UpdateOrganization" "\<not> registry_fault CopyDocuments"
    "drop_fault DropOldCollection" "\<not> drop_fault CopyDocuments" "\<not> drop_fault UpdateOrganization"
    "\<not> drop_fault UpdateAdmin"
    by (simp_all add: registry_fault_def drop_fault_def)
  have c: "collection_name acme_org = ''org_acme_corp''" by (simp add: acme_org_def)
  note t1 = rename_write_order[where fails = registry_fault and ctx = demo_ctx and s = acme_db
      and name = "''Acme Corp''" and new_name = "''Acme Inc''" and em = "''a@x.com''"
      and pw = "''password123''" and now = 2000 and s' = acme_registry_fault_db, THEN conjunct1]
  note t2 = rename_write_order[where fails = drop_fault and ctx = demo_ctx and s = acme_db
      and name = "''Acme Corp''" and new_name = "''Acme Inc''" and em = "''a@x.com''"
      and pw = "''password123''" and now = 2000 and s' = acme_drop_fault_db, THEN conjunct2]
  from t1 f acme_fault_runs(1)
  have 1: "find_one_org acme_registry_fault_db ''Acme Corp'' = Some acme_org
   \<and> master_db acme_registry_fault_db ''org_acme_corp'' \<noteq> None
   \<and> find_all acme_registry_fault_db ''org_acme_inc'' = [acme_marker]"
    by (simp add: acme_db_simps sanitize_examples c)
  from t2 f acme_fault_runs(2)
  have 2: "find_one_org acme_drop_fault_db ''Acme Inc'' =
        Some (acme_org\<lparr>organization_name := ''Acme Inc'', collection_name := ''org_acme_inc'',
                updated_at := 2000\<rparr>)
   \<and> find_one_admin acme_drop_fault_db ''a@x.com'' =
        Some (acme_admin\<lparr>admin_organization_name := ''Acme Inc''\<rparr>)
   \<and> master_db acme_drop_fault_db ''org_acme_corp'' \<noteq> None"
    by (simp add: acme_db_simps sanitize_examples c)
  from 1 2 c show ?thesis by simp
qed

subsection \<open>Names that derive the same partition name\<close>

text \<open>
  Claim C2, as stated: when two organization names differ only by case or by
  hyphen and space, the second Create fails.  Create compares organization names
  and admin emails only, character for character; the partition name is not
  compared and the registry has no index on it.  After Acme Corp, creating
  \<open>acme-corp\<close> with another email succeeds with the partition name of the first.
\<close>

theorem create_collision_counterexample:
  "fst (create_organization demo_ctx init_db ''Acme Corp'' ''a@x.com'' ''password123'' 1000) =
     Inr [(''message'', JStr ''Organization created successfully''),
          (''organization_id'', JOid 0),
          (''organization_name'', JStr ''Acme Corp''),
          (''collection_name'', JStr ''org_acme_corp''),
          (''admin_email'', JStr ''a@x.com'')]
   \<and> acme_db = snd (create_organization demo_ctx init_db ''Acme Corp'' ''a@x.com'' ''password123'' 1000)
   \<and> sanitize_collection_name ''acme-corp'' = sanitize_collection_name ''Acme Corp''
   \<and> valid_organization_name ''acme-corp'' \<and> valid_password ''password456''
   \<and> fst (create_organization demo_ctx acme_db ''acme-corp'' ''b@x.com'' ''password456'' 1001) =
     Inr [(''message'', JStr ''Organization created successfully''),
          (''organization_id'', JOid 3),
          (''organization_name'', JStr ''acme-corp''),
          (''collection_name'', JStr ''org_acme_corp''),
          (''admin_email'', JStr ''b@x.com'')]"
  by (simp add: acme_create_run sanitize_examples valid_organization_name_def valid_password_def)
    (simp add: create_organization_def acme_db_simps sanitize_examples insert_one_org_def
      insert_one_admin_def Let_def acme_org_def acme_admin_def)

text \<open>
  Claim C2, amended.  After a successful Create, a second Create of the very same
  organization name fails with status 400.  A second Create whose name is another
  one, not registered before, and whose email is new succeeds, also when the two
  names differ only by case or by hyphen and space: the two registry records then
  carry the same partition name, and that one partition receives the
  initialization markers of both organizations.
\<close>

theorem create_collision:
  "create_organization ctx s n1 e1 p1 t1 = (Inr r1, s1) \<longrightarrow>
     create_organization ctx' s1 n1 e2 p2 t2 =
       (Inl (HTTPException 400 ''Organization name already exists''), s1)
     \<and> (n2 \<noteq> n1 \<and> e2 \<noteq> e1 \<and> find_one_org s n2 = None \<and> find_one_admin s e2 = None \<longrightarrow>
         (\<exists>r2 s2 d1 d2. create_organization ctx' s1 n2 e2 p2 t2 = (Inr r2, s2)
            \<and> lookup r2 ''collection_name'' = JStr (sanitize_collection_name n2)
            \<and> find_one_org s2 n1 = Some d1 \<and> collection_name d1 = sanitize_collection_name n1
            \<and> find_one_org s2 n2 = Some d2 \<and> collection_name d2 = sanitize_collection_name n2
            \<and> d1 \<noteq> d2
            \<and> (sanitize_collection_name n2 = sanitize_collection_name n1 \<longrightarrow>
                 collection_name d1 = collection_name d2
                 \<and> length (find_all s2 (sanitize_collection_name n1)) =
                     length (find_all s (sanitize_collection_name n1)) + 2)))"
proof (intro impI conjI)
  assume c1: "create_organization ctx s n1 e1 p1 t1 = (Inr r1, s1)"
  note a = create_organization_Inr[OF c1]
  let ?o1 = "\<lparr>org_id = next_id s, organization_name = n1,
           collection_name = sanitize_collection_name n1,
           created_at = t1, updated_at = t1, status = ''active''\<rparr>"
  from a have n: "find (\<lambda>d. organization_name d = n1) (organizations_collection s) = None"
    by (simp add: find_one_org_def)
  have f1: "find_one_org s1 n1 = Some ?o1"
    using a find_None_append[OF n] by (simp add: find_one_org_def)
  then show "create_organization ctx' s1 n1 e2 p2 t2 =
       (Inl (HTTPException 400 ''Organization name already exists''), s1)"
    by (simp add: create_organization_def)
  assume h: "n2 \<noteq> n1 \<and> e2 \<noteq> e1 \<and> find_one_org s n2 = None \<and> find_one_admin s e2 = None"
  from h have ne: "n1 \<noteq> n2" "e1 \<noteq> e2" "n2 \<noteq> n1" "e2 \<noteq> e1" by auto
  from h have n2: "find (\<lambda>d. organization_name d = n2) (organizations_collection s) = None"
    and m2: "find (\<lambda>d. email d = e2) (admins_collection s) = None"
    by (simp_all add: find_one_org_def find_one_admin_def)
  have g1: "find_one_org s1 n2 = None"
    using a ne find_None_append[OF n2] by (simp add: find_one_org_def)
  have g2: "find_one_admin s1 e2 = None"
    using a ne find_None_append[OF m2] by (simp add: find_one_admin_def)
  from create_organization_succeeds[OF g1 g2] obtain r2 s2 where
    c2: "create_organization ctx' s1 n2 e2 p2 t2 = (Inr r2, s2)" by blast
  note b = create_organization_Inr[OF c2]
  let ?o2 = "\<lparr>org_id = next_id s1, organization_name = n2,
           collection_name = sanitize_collection_name n2,
           created_at = t2, updated_at = t2, status = ''active''\<rparr>"
  have k1: "find_one_org s2 n1 = Some ?o1"
    using a b ne find_None_append[OF n] by (simp add: find_one_org_def)
  from g1 have "find (\<lambda>d. organization_name d = n2) (organizations_collection s1) = None"
    by (simp add: find_one_org_def)
  from find_None_append[OF this] have k2: "find_one_org s2 n2 = Some ?o2"
    using b by (simp add: find_one_org_def)
  have l: "lookup r2 ''collection_name'' = JStr (sanitize_collection_name n2)"
    using b by (simp add: lookup_def)
  have d: "?o1 \<noteq> ?o2" using ne by simp
  have len: "sanitize_collection_name n2 = sanitize_collection_name n1 \<longrightarrow>
       length (find_all s2 (sanitize_collection_name n1)) =
                     length (find_all s (sanitize_collection_name n1)) + 2"
    using a b by (simp add: find_all_def)
  from c2 l k1 k2 d len
  show "\<exists>r2 s2 d1 d2. create_organization ctx' s1 n2 e2 p2 t2 = (Inr r2, s2)
            \<and> lookup r2 ''collection_name'' = JStr (sanitize_collection_name n2)
            \<and> find_one_org s2 n1 = Some d1 \<and> collection_name d1 = sanitize_collection_name n1
            \<and> find_one_org s2 n2 = Some d2 \<and> collection_name d2 = sanitize_collection_name n2
            \<and> d1 \<noteq> d2
            \<and> (sanitize_collection_name n2 = sanitize_collection_name n1 \<longrightarrow>
                 collection_name d1 = collection_name d2
                 \<and> length (find_all s2 (sanitize_collection_name n1)) =
                     length (find_all s (sanitize_collection_name n1)) + 2)"
    by (intro exI[of _ r2] exI[of _ s2] exI[of _ ?o1] exI[of _ ?o2]) simp
qed

theorem create_collision_witness:
  "create_organization demo_ctx acme_db ''Acme Corp'' ''c@x.com'' ''password789'' 1001 =
       (Inl (HTTPException 400 ''Organization name already exists''), acme_db)
   \<and> sanitize_collection_name ''acme-corp'' = sanitize_collection_name ''Acme Corp''
   \<and> (\<exists>d1 d2. find_one_org acme_twin_db ''Acme Corp'' = Some d1
          \<and> find_one_org acme_twin_db ''acme-corp'' = Some d2 \<and> d1 \<noteq> d2
          \<and> collection_name d1 = ''org_acme_corp'' \<and> collection_name d2 = ''org_acme_corp'')
   \<and> length (find_all acme_twin_db ''org_acme_corp'') = 2"
proof -
  note t1 = create_collision[where ctx = demo_ctx and s = init_db and ?n1.0 = "''Acme Corp''"
      and ?e1.0 = "''a@x.com''" and ?p1.0 = "''password123''" and ?t1.0 = 1000 and ?s1.0 = acme_db
      and ?r1.0 = "[(''message'', JStr ''Organization created successfully''),
           (''organization_id'', JOid 0),
           (''organization_name'', JStr ''Acme Corp''),
           (''collection_name'', JStr ''org_acme_corp''),
           (''admin_email'', JStr ''a@x.com'')]"
      and ctx' = demo_ctx and ?e2.0 = "''c@x.com''" and ?p2.0 = "''password789''" and ?t2.0 = 1001
      and ?n2.0 = "''acme-corp''", THEN mp, OF acme_create_run, THEN conjunct1]
  note t2 = create_collision[where ctx = demo_ctx and s = init_db and ?n1.0 = "''Acme Corp''"
      and ?e1.0 = "''a@x.com''" and ?p1.0 = "''password123''" and ?t1.0 = 1000 and ?s1.0 = acme_db
      and ?r1.0 = "[(''message'', JStr ''Organization created successfully''),
           (''organization_id'', JOid 0),
           (''organization_name'', JStr ''Acme Corp''),
           (''collection_name'', JStr ''org_acme_corp''),
           (''admin_email'', JStr ''a@x.com'')]"
      and ctx' = demo_ctx and ?e2.0 = "''b@x.com''" and ?p2.0 = "''password456''" and ?t2.0 = 1001
      and ?n2.0 = "''acme-corp''", THEN mp, OF acme_create_run, THEN conjunct2, THEN mp]
  have "''acme-corp'' \<noteq> ''Acme Corp'' \<and> ''b@x.com'' \<noteq> ''a@x.com''
      \<and> find_one_org init_db ''acme-corp'' = None \<and> find_one_admin init_db ''b@x.com'' = None"
    by (simp add: init_db_finds)
  from t2[OF this] obtain r2 s2 d1 d2 where
    c: "create_organization demo_ctx acme_db ''acme-corp'' ''b@x.com'' ''password456'' 1001 = (Inr r2, s2)"
    and d: "find_one_org s2 ''Acme Corp'' = Some d1" "collection_name d1 = sanitize_collection_name ''Acme Corp''"
       "find_one_org s2 ''acme-corp'' = Some d2" "collection_name d2 = sanitize_collection_name ''acme-corp''"
       "d1 \<noteq> d2"
    and l: "sanitize_collection_name ''acme-corp'' = sanitize_collection_name ''Acme Corp'' \<longrightarrow>
                 length (find_all s2 (sanitize_collection_name ''Acme Corp'')) =
                     length (find_all init_db (sanitize_collection_name ''Acme Corp'')) + 2"
    by blast
  from c have s2: "s2 = acme_twin_db" by (simp add: acme_twin_db_def)
  from d l have "(\<exists>d1 d2. find_one_org acme_twin_db ''Acme Corp'' = Some d1
          \<and> find_one_org acme_twin_db ''acme-corp'' = Some d2 \<and> d1 \<noteq> d2
          \<and> collection_name d1 = ''org_acme_corp'' \<and> collection_name d2 = ''org_acme_corp'')
   \<and> length (find_all acme_twin_db ''org_acme_corp'') = 2"
    unfolding s2 by (simp add: sanitize_examples init_db_finds)
  with t1 show ?thesis by (simp add: sanitize_examples)
qed

subsection \<open>The records a Rename moves\<close>

text \<open>
  Claim C3, as stated: after a successful Rename the new partition holds exactly
  the records of the old one.  With Acme Corp and Beta registered, renaming Beta to
  \<open>acme corp\<close> succeeds (that name is not registered) and writes the one record of
  Beta into the partition of Acme Corp, which then holds two records.
\<close>

theorem rename_moves_records_counterexample:
  "find_all beta_db ''org_beta'' = [beta_marker]
   \<and> valid_organization_name ''acme corp''
   \<and> fst (update_organization demo_ctx no_faults beta_db
          ''Beta'' ''acme corp'' ''b@x.com'' ''password456'' 2000) =
        Inr [(''message'', JStr ''Organization updated successfully''),
             (''old_name'', JStr ''Beta''),
             (''new_name'', JStr ''acme corp''),
             (''new_collection_name'', JStr ''org_acme_corp'')]
   \<and> find_all (snd (update_organization demo_ctx no_faults beta_db
          ''Beta'' ''acme corp'' ''b@x.com'' ''password456'' 2000)) ''org_acme_corp'' =
        [acme_marker, beta_marker]
   \<and> find_all (snd (update_organization demo_ctx no_faults beta_db
          ''Beta'' ''acme corp'' ''b@x.com'' ''password456'' 2000)) ''org_acme_corp'' \<noteq>
        find_all beta_db ''org_beta''"
  by (simp add: update_organization_def migrate_def copy_documents_def update_one_org_def
      update_one_admin_def drop_old_collection_def drop_collection_def no_faults_def
      beta_db_simps sanitize_examples demo_ctx_def Let_def valid_organization_name_def)
    (simp add: beta_admin_def beta_org_def acme_org_def beta_marker_def acme_marker_def find_all_def
      beta_db_simps)

text \<open>
  Claim C3, amended.  A successful Rename whose new partition name differs from the
  old one leaves the new partition holding what it held before followed by the
  records of the old partition, unmodified and in their order: exactly those
  records when the new partition did not exist or was empty.  When the old
  partition is empty nothing is inserted and the new partition is left as it was,
  not even created.  The old partition no longer exists afterwards, and no other
  partition changes.  A Rename whose new name derives the old partition name
  succeeds only when that partition is empty.
\<close>

theorem rename_moves_records:
  "update_organization ctx fails s name new_name em pw now = (Inr r, s') \<longrightarrow>
     (\<exists>org. find_one_org s name = Some org
        \<and> master_db s' (collection_name org) = None
        \<and> (sanitize_collection_name new_name \<noteq> collection_name org \<longrightarrow>
             find_all s' (sanitize_collection_name new_name) =
               find_all s (sanitize_collection_name new_name) @ find_all s (collection_name org)
             \<and> (find_all s (collection_name org) = [] \<longrightarrow>
                  master_db s' (sanitize_collection_name new_name) =
                    master_db s (sanitize_collection_name new_name)))
        \<and> (sanitize_collection_name new_name \<noteq> collection_name org
             \<and> find_all s (sanitize_collection_name new_name) = [] \<longrightarrow>
             find_all s' (sanitize_collection_name new_name) = find_all s (collection_name org))
        \<and> (sanitize_collection_name new_name = collection_name org \<longrightarrow>
             find_all s (collection_name org) = [])
        \<and> (\<forall>c. c \<noteq> sanitize_collection_name new_name \<and> c \<noteq> collection_name org \<longrightarrow>
             master_db s' c = master_db s c))"
proof
  assume u: "update_organization ctx fails s name new_name em pw now = (Inr r, s')"
  from update_organization_Inr[OF u] obtain org where
    org: "find_one_org s name = Some org"
    and m: "migrate fails s org name new_name em now = (Inr r, s')"
    by blast
  note db = migrate_Inr(3)[OF m]
  have 1: "master_db s' (collection_name org) = None"
    by (simp add: db)
  have 2: "find_all s' (sanitize_collection_name new_name) =
               find_all s (sanitize_collection_name new_name) @ find_all s (collection_name org)"
    if "sanitize_collection_name new_name \<noteq> collection_name org"
    using that by (simp add: find_all_def db)
  have 3: "master_db s' (sanitize_collection_name new_name) =
                    master_db s (sanitize_collection_name new_name)"
    if "sanitize_collection_name new_name \<noteq> collection_name org" "find_all s (collection_name org) = []"
    using that by (simp add: db)
  have 4: "find_all s (collection_name org) = []"
    if "sanitize_collection_name new_name = collection_name org"
    using migrate_Inr_copied[OF m] that insert_many_self by auto
  have 5: "\<forall>c. c \<noteq> sanitize_collection_name new_name \<and> c \<noteq> collection_name org \<longrightarrow>
             master_db s' c = master_db s c"
    by (simp add: db)
  from org 1 2 3 4 5 show "\<exists>org. find_one_org s name = Some org
        \<and> master_db s' (collection_name org) = None
        \<and> (sanitize_collection_name new_name \<noteq> collection_name org \<longrightarrow>
             find_all s' (sanitize_collection_name new_name) =
               find_all s (sanitize_collection_name new_name) @ find_all s (collection_name org)
             \<and> (find_all s (collection_name org) = [] \<longrightarrow>
                  master_db s' (sanitize_collection_name new_name) =
                    master_db s (sanitize_collection_name new_name)))
        \<and> (sanitize_collection_name new_name \<noteq> collection_name org
             \<and> find_all s (sanitize_collection_name new_name) = [] \<longrightarrow>
             find_all s' (sanitize_collection_name new_name) = find_all s (collection_name org))
        \<and> (sanitize_collection_name new_name = collection_name org \<longrightarrow>
             find_all s (collection_name org) = [])
        \<and> (\<forall>c. c \<noteq> sanitize_collection_name new_name \<and> c \<noteq> collection_name org \<longrightarrow>
             master_db s' c = master_db s c)"
    by (intro exI[of _ org]) simp
qed

theorem rename_moves_records_witness:
  "find_all acme_db ''org_acme_corp'' = [acme_marker]
   \<and> find_all acme_inc_db ''org_acme_inc'' = [acme_marker]
   \<and> master_db acme_inc_db ''org_acme_corp'' = None"
proof -
  have c: "collection_name acme_org = ''org_acme_corp''" by (simp add: acme_org_def)
  from rename_moves_records[where ctx = demo_ctx and fails = no_faults and s = acme_db
      and name = "''Acme Corp''" and new_name = "''Acme Inc''" and em = "''a@x.com''"
      and pw = "''password123''" and now = 2000 and s' = acme_inc_db
      and r = "[(''message'', JStr ''Organization updated successfully''),
           (''old_name'', JStr ''Acme Corp''),
           (''new_name'', JStr ''Acme Inc''),
           (''new_collection_name'', JStr ''org_acme_inc'')]", THEN mp, OF acme_rename_run]
  show ?thesis
    by (simp add: acme_db_simps sanitize_examples c)
qed

subsection \<open>The partition-naming rule\<close>



subsection \<open>The invariant of the registry and the admins\<close>

lemma store_inv_init: "store_inv init_db"
  by (simp add: store_inv_def init_db_def)

lemma store_inv_same:
  "organizations_collection s' = organizations_collection s \<Longrightarrow>
   admins_collection s' = admins_collection s \<Longrightarrow> next_id s' = next_id s \<Longrightarrow>
   store_inv s \<Longrightarrow> store_inv s'"
  by (simp add: store_inv_def)

lemma store_inv_create:
  assumes "store_inv s"
  shows "store_inv (snd (create_organization ctx s name em pw now))"
proof (cases "create_organization ctx s name em pw now")
  case (Pair res s')
  show ?thesis
  proof (cases res)
    case (Inl e)
    with Pair create_organization_failed[of ctx s name em pw now e s'] assms
    show ?thesis by simp
  next
    case (Inr r)
    note c = create_organization_Inr[OF Pair[unfolded Inr]]
    from c have n: "name \<notin> set (map organization_name (organizations_collection s))"
      and m: "em \<notin> set (map email (admins_collection s))"
      by (auto dest: find_one_org_None find_one_admin_None)
    from assms have bound: "\<forall>d\<in>set (organizations_collection s). org_id d < next_id s"
      and sync: "\<forall>a\<in>set (admins_collection s). \<exists>d\<in>set (organizations_collection s).
           org_id d = organization_id a \<and> organization_name d = admin_organization_name a"
      by (simp_all add: store_inv_def)
    from bound have fresh: "next_id s \<notin> set (map org_id (organizations_collection s))"
      by auto
    have "organization_id a < next_id s" if "a \<in> set (admins_collection s)" for a
      using that bound sync by fastforce
    then have fresh2: "next_id s \<notin> set (map organization_id (admins_collection s))"
      by force
    have "store_inv s'"
      using assms c n m fresh fresh2
      unfolding store_inv_def by (auto simp: less_Suc_eq)
    with Pair show ?thesis by simp
  qed
qed

lemma store_inv_rename:
  assumes inv: "store_inv s"
  shows "store_inv (snd (update_organization ctx no_faults s name new_name em pw now))"
proof (cases "update_organization ctx no_faults s name new_name em pw now")
  case (Pair res s')
  from update_organization_cases[OF Pair]
  consider (http) "s' = s"
    | (migrate) org admin where "find_one_org s name = Some org" "find_one_admin s em = Some admin"
        "admin_organization_name admin = name" "new_name = name \<or> find_one_org s new_name = None"
        "migrate no_faults s org name new_name em now = (res, s')"
    by blast
  then have "store_inv s'"
  proof cases
    case http
    with inv show ?thesis by simp
  next
    case migrate
    show ?thesis
    proof (cases res)
      case (Inl e)
      with migrate(5) migrate_failed[of no_faults s org name new_name em now e s']
      have "organizations_collection s' = organizations_collection s
        \<and> admins_collection s' = admins_collection s \<and> next_id s' = next_id s"
        by (simp add: no_faults_def)
      with inv show ?thesis by (simp add: store_inv_same)
    next
      case (Inr r)
      note m = migrate(5)[unfolded Inr]
      let ?F = "\<lambda>d. if organization_name d = name
                 then d\<lparr>organization_name := new_name,
                        collection_name := sanitize_collection_name new_name,
                        updated_at := now\<rparr>
                 else d"
      let ?G = "\<lambda>d. if email d = em then d\<lparr>admin_organization_name := new_name\<rparr> else d"
      from inv have dn: "distinct (map organization_name (organizations_collection s))"
        and di: "distinct (map org_id (organizations_collection s))"
        and de: "distinct (map email (admins_collection s))"
        and doi: "distinct (map organization_id (admins_collection s))"
        and bound: "\<forall>d\<in>set (organizations_collection s). org_id d < next_id s"
        and sync: "\<forall>a\<in>set (admins_collection s). \<exists>d\<in>set (organizations_collection s).
           org_id d = organization_id a \<and> organization_name d = admin_organization_name a"
        by (simp_all add: store_inv_def)
      have orgs: "organizations_collection s' = map ?F (organizations_collection s)"
        using migrate_Inr(1)[OF m] update_first_distinct[OF dn] by simp
      have admins: "admins_collection s' = map ?G (admins_collection s)"
        using migrate_Inr(2)[OF m] update_first_distinct[OF de] by simp
      have nid: "next_id s' = next_id s" by (rule migrate_Inr(4)[OF m])
      have names: "map organization_name (map ?F (organizations_collection s)) =
          map (\<lambda>x. if x = name then new_name else x) (map organization_name (organizations_collection s))"
        by simp
      have new: "new_name = name \<or> new_name \<notin> set (map organization_name (organizations_collection s))"
        using migrate(4) by (auto dest: find_one_org_None)
      have 1: "distinct (map organization_name (organizations_collection s'))"
        unfolding orgs names by (rule distinct_rename_key[OF dn new])
      have ids: "map org_id (organizations_collection s') = map org_id (organizations_collection s)"
        unfolding orgs by simp
      have ems: "map email (admins_collection s') = map email (admins_collection s)"
        unfolding admins by simp
      have ois: "map organization_id (admins_collection s') = map organization_id (admins_collection s)"
        unfolding admins by simp
      have 5: "\<forall>d\<in>set (organizations_collection s'). org_id d < next_id s'"
        using bound unfolding orgs nid by auto
      have adm: "admin \<in> set (admins_collection s)" "email admin = em"
        using migrate(2) unfolding find_one_admin_def by (auto dest: find_Some_holds)
      have 6: "\<exists>d\<in>set (organizations_collection s').
           org_id d = organization_id a' \<and> organization_name d = admin_organization_name a'"
        if a': "a' \<in> set (admins_collection s')" for a'
      proof -
        from a' obtain a where a: "a \<in> set (admins_collection s)" and a'_def: "a' = ?G a"
          unfolding admins by auto
        from sync a obtain d where d: "d \<in> set (organizations_collection s)"
          "org_id d = organization_id a" "organization_name d = admin_organization_name a"
          by blast
        have Fd: "?F d \<in> set (organizations_collection s')"
          unfolding orgs set_map using d(1) by (intro image_eqI[where x = d]) simp_all
        have "org_id (?F d) = organization_id a' \<and> organization_name (?F d) = admin_organization_name a'"
        proof (cases "email a = em")
          case True
          with a adm de have "a = admin" by (auto dest: distinct_map_eq)
          with migrate(3) d True show ?thesis by (simp add: a'_def)
        next
          case False
          have "organization_name d \<noteq> name"
          proof
            assume dn': "organization_name d = name"
            from sync adm(1) obtain d2 where d2: "d2 \<in> set (organizations_collection s)"
              "org_id d2 = organization_id admin" "organization_name d2 = admin_organization_name admin"
              by blast
            with migrate(3) dn' d(1) dn have "d2 = d" by (auto dest: distinct_map_eq)
            with d2 d have "organization_id admin = organization_id a" by simp
            with doi adm(1) a have "admin = a" by (auto dest: distinct_map_eq)
            with adm(2) False show False by simp
          qed
          with False d show ?thesis by (simp add: a'_def)
        qed
        with Fd show ?thesis by blast
      qed
      from 1 di de doi 5 6 show ?thesis
        unfolding store_inv_def ids ems ois by blast
    qed
  qed
  with Pair show ?thesis by simp
qed

lemma store_inv_delete:
  assumes inv: "store_inv s"
  shows "store_inv (snd (delete_organization s name tok now))"
proof -
  let ?s' = "\<lambda>c. s\<lparr>master_db := (master_db s)(c := None),
               organizations_collection :=
                 delete_first (\<lambda>d. organization_name d = name) (organizations_collection s),
               admins_collection :=
                 filter (\<lambda>d. admin_organization_name d \<noteq> name) (admins_collection s)\<rparr>"
  from inv have dn: "distinct (map organization_name (organizations_collection s))"
    by (simp add: store_inv_def)
  have del: "delete_first (\<lambda>d. organization_name d = name) (organizations_collection s) =
      filter (\<lambda>d. organization_name d \<noteq> name) (organizations_collection s)"
    by (rule delete_first_distinct[OF dn])
  have sync: "\<exists>d\<in>set (filter (\<lambda>d. organization_name d \<noteq> name) (organizations_collection s)).
      org_id d = organization_id a \<and> organization_name d = admin_organization_name a"
    if "a \<in> set (filter (\<lambda>d. admin_organization_name d \<noteq> name) (admins_collection s))" for a
  proof -
    from that have a: "a \<in> set (admins_collection s)" "admin_organization_name a \<noteq> name"
      by simp_all
    with inv obtain d where "d \<in> set (organizations_collection s)"
      "org_id d = organization_id a" "organization_name d = admin_organization_name a"
      unfolding store_inv_def by blast
    with a(2) show ?thesis by auto
  qed
  have "store_inv (?s' c)" for c
    using inv sync unfolding store_inv_def del
    by (simp add: distinct_map_filter)
  then have "snd (delete_organization s name tok now) = s \<or>
      store_inv (snd (delete_organization s name tok now))"
    by (auto simp: delete_organization_def Let_def drop_collection_def
        split: sum.splits option.splits)
  with inv show ?thesis by auto
qed

lemma reachable_inv: "reachable s \<Longrightarrow> store_inv s"
proof (induction rule: reachable.induct)
  case start
  show ?case by (rule store_inv_init)
next
  case (create s ctx name em pw now)
  then show ?case by (simp add: store_inv_create)
next
  case (rename s ctx name new_name em pw now)
  then show ?case by (simp add: store_inv_rename)
next
  case (delete s name tok now)
  then show ?case by (simp add: store_inv_delete)
next
  case (records s m)
  then show ?case by (simp add: store_inv_def)
qed

lemma store_inv_in_sync: "store_inv s \<Longrightarrow> admins_in_sync s"
  unfolding store_inv_def admins_in_sync_def list_all_iff
proof (intro ballI)
  fix a
  assume h: "distinct (map organization_name (organizations_collection s))
     \<and> distinct (map org_id (organizations_collection s))
     \<and> distinct (map email (admins_collection s))
     \<and> distinct (map organization_id (admins_collection s))
     \<and> (\<forall>d\<in>set (organizations_collection s). org_id d < next_id s)
     \<and> (\<forall>a\<in>set (admins_collection s). \<exists>d\<in>set (organizations_collection s).
           org_id d = organization_id a \<and> organization_name d = admin_organization_name a)"
    and a: "a \<in> set (admins_collection s)"
  then obtain d where d: "d \<in> set (organizations_collection s)" "org_id d = organization_id a"
    "organization_name d = admin_organization_name a" by blast
  from h have "distinct (map org_id (organizations_collection s))" by simp
  from find_distinct_key[OF this d(1)] d
  show "case find (\<lambda>d. org_id d = organization_id a) (organizations_collection s) of
          None \<Rightarrow> False | Some d \<Rightarrow> organization_name d = admin_organization_name a"
    by simp
qed

text \<open>
  Claim C5.  In every store reached from the empty database by Create, Rename and
  Delete operations that ran to their end, whatever each one returned or raised (and
  whatever records other parties wrote into the partitions in between), every admin
  record carries the current name of its organization, the registry record whose
  \<open>_id\<close> is the admin's \<open>organization_id\<close>.  The invariant \<open>store_inv\<close>, which
  each operation preserves, adds what the proof needs: names, ids and emails are
  unique, an organization has one admin, and ids are below the counter.
\<close>

theorem admins_stay_in_sync: "reachable s \<Longrightarrow> admins_in_sync s"
  by (rule store_inv_in_sync[OF reachable_inv])

theorem admins_stay_in_sync_witness:
  "reachable acme_inc_db
   \<and> admins_in_sync acme_inc_db
   \<and> map organization_name (organizations_collection acme_inc_db) = [''Acme Inc'']
   \<and> map admin_organization_name (admins_collection acme_inc_db) = [''Acme Inc'']"
proof -
  have r: "reachable acme_inc_db"
    unfolding acme_inc_db_def acme_db_def
    by (intro reachable.rename reachable.create reachable.start)
  from admins_stay_in_sync[OF r] r show ?thesis
    by (simp add: acme_inc_db_simps)
qed

text \<open>
  A Rename that breaks off between its two registry writes is not such an operation:
  when the update of the admin raises, the registry record has the new name and the
  admin record the old one.
\<close>

lemma admin_fault_breaks_sync:
  "\<not> admins_in_sync (snd (update_organization demo_ctx admin_fault acme_db
          ''Acme Corp'' ''Acme Inc'' ''a@x.com'' ''password123'' 2000))"
  by (simp add: update_organization_def migrate_def copy_documents_def
      update_one_org_def update_one_admin_def admin_fault_def
      acme_db_simps sanitize_examples demo_ctx_def Let_def admins_in_sync_def
      acme_admin_def acme_marker_def acme_org_def)

subsection \<open>Login failures\<close>

text \<open>
  Claim C6.  A login whose email matches no admin and a login whose email matches an
  admin but whose password does not verify both fail with status 401 and the same
  detail message: the two results are equal, whatever the inputs.  Login has no
  other failure.
\<close>

theorem login_failures_indistinguishable:
  "(find_one_admin s em = None \<longrightarrow>
      admin_login ctx s em pw now = Inl (HTTPException 401 ''Invalid email or password''))
   \<and> (find_one_admin s em = Some a \<and> \<not> verify_password ctx pw (password a) \<longrightarrow>
      admin_login ctx s em pw now = Inl (HTTPException 401 ''Invalid email or password''))
   \<and> (find_one_admin s em1 = None \<and> find_one_admin s em2 = Some a2
        \<and> \<not> verify_password ctx pw2 (password a2) \<longrightarrow>
      admin_login ctx s em1 pw1 now1 = admin_login ctx s em2 pw2 now2)
   \<and> (admin_login ctx s em pw now = Inl f \<longrightarrow> f = HTTPException 401 ''Invalid email or password'')"
  by (auto simp: admin_login_def Let_def split: option.splits if_splits)

theorem login_failures_indistinguishable_witness:
  "find_one_admin acme_db ''z@x.com'' = None
   \<and> admin_login demo_ctx acme_db ''z@x.com'' ''password123'' 1500 = Inl (HTTPException 401 ''Invalid email or password'')
   \<and> find_one_admin acme_db ''a@x.com'' \<noteq> None
   \<and> \<not> verify_password demo_ctx ''wrong-password'' ''$2b$password123''
   \<and> admin_login demo_ctx acme_db ''a@x.com'' ''wrong-password'' 1600 = Inl (HTTPException 401 ''Invalid email or password'')
   \<and> admin_login demo_ctx acme_db ''z@x.com'' ''password123'' 1500 = admin_login demo_ctx acme_db ''a@x.com'' ''wrong-password'' 1600"
proof -
  have 1: "find_one_admin acme_db ''z@x.com'' = None"
    by (simp add: acme_db_eq find_one_admin_def)
  have 2: "find_one_admin acme_db ''a@x.com'' = Some \<lparr>admin_id = 1, email = ''a@x.com'', password = ''$2b$password123'',
          organization_id = 0, admin_organization_name = ''Acme Corp'',
          role = ''admin'', admin_created_at = 1000\<rparr>"
    by (simp add: acme_db_eq find_one_admin_def)
  have 3: "\<not> verify_password demo_ctx ''wrong-password'' ''$2b$password123''"
    by (simp add: demo_ctx_def)
  let ?a = "\<lparr>admin_id = 1, email = ''a@x.com'', password = ''$2b$password123'',
          organization_id = 0, admin_organization_name = ''Acme Corp'',
          role = ''admin'', admin_created_at = 1000\<rparr>"
  from login_failures_indistinguishable[where s = acme_db and ctx = demo_ctx
      and em = "''a@x.com''" and pw = "''wrong-password''" and now = 1600 and a = ?a
      and ?em1.0 = "''z@x.com''" and ?pw1.0 = "''password123''" and ?now1.0 = 1500
      and ?em2.0 = "''a@x.com''" and ?pw2.0 = "''wrong-password''" and ?now2.0 = 1600 and ?a2.0 = ?a
      and f = "HTTPException 401 ''Invalid email or password''"]
    1 2 3
  have "admin_login demo_ctx acme_db ''a@x.com'' ''wrong-password'' 1600 = Inl (HTTPException 401 ''Invalid email or password'')"
    and "admin_login demo_ctx acme_db ''z@x.com'' ''password123'' 1500 = admin_login demo_ctx acme_db ''a@x.com'' ''wrong-password'' 1600"
    by simp_all
  with 1 2 3
  show ?thesis by simp
qed

subsection \<open>Token validation\<close>



subsection \<open>Token expiry\<close>




subsection \<open>Delete without an admin record\<close>

text \<open>
  Claim C9, as stated: every Delete request whose token validates but whose \<open>sub\<close>
  matches no admin subscripts the absent admin instead of returning a failure of the
  taxonomy.  The organization is looked up first: with the admin of Acme Corp gone,
  that admin's token on a name that is not registered gets 404, Organization not
  found.
\<close>

theorem delete_missing_admin_counterexample:
  "get_current_admin acme_token 1300 = Inr (JStr ''a@x.com'', JOid 0)
   \<and> find_one_admin_by beta_only_db (JStr ''a@x.com'') = None
   \<and> fst (delete_organization beta_only_db ''Ghost Org'' acme_token 1300) =
        Inl (HTTPException 404 ''Organization not found'')"
  by (simp add: acme_token_valid find_one_admin_by_JStr beta_only_db_simps delete_organization_def)

text \<open>
  Claim C9, amended.  For every Delete request whose token validates but whose
  \<open>sub\<close> matches no admin record: when the named organization is registered,
  \<open>delete_organization\<close> subscripts the absent admin, which is a \<open>TypeError\<close> and
  no \<open>HTTPException\<close>, and the store is as before; when it is not registered, the
  request fails with 404 and the store is as before.
\<close>

theorem delete_missing_admin:
  "get_current_admin tok now = Inr ca \<and> find_one_admin_by s (fst ca) = None \<longrightarrow>
     (find_one_org s name \<noteq> None \<longrightarrow> delete_organization s name tok now = (Inl TypeError, s))
     \<and> (find_one_org s name = None \<longrightarrow>
          delete_organization s name tok now = (Inl (HTTPException 404 ''Organization not found''), s))"
  by (auto simp: delete_organization_def)

theorem delete_missing_admin_witness:
  "get_current_admin acme_token 1300 = Inr (JStr ''a@x.com'', JOid 0)
   \<and> find_one_admin_by beta_only_db (JStr ''a@x.com'') = None
   \<and> find_one_org beta_only_db ''Beta'' = Some beta_org
   \<and> delete_organization beta_only_db ''Beta'' acme_token 1300 = (Inl TypeError, beta_only_db)"
proof -
  have 1: "get_current_admin acme_token 1300 = Inr (JStr ''a@x.com'', JOid 0)"
    by (simp add: acme_token_valid)
  have 2: "find_one_admin_by beta_only_db (fst (JStr ''a@x.com'', JOid 0)) = None"
    by (simp add: find_one_admin_by_JStr beta_only_db_simps)
  have 3: "find_one_org beta_only_db ''Beta'' = Some beta_org"
    by (simp add: beta_only_db_simps)
  from delete_missing_admin[where tok = acme_token and now = 1300 and ca = "(JStr ''a@x.com'', JOid 0)"
      and s = beta_only_db and name = "''Beta''"] 1 2 3
  have "delete_organization beta_only_db ''Beta'' acme_token 1300 = (Inl TypeError, beta_only_db)"
    by simp
  with 1 2 3 show ?thesis by simp
qed

subsection \<open>Delete after a Rename\<close>



end
